theory Spec2Isabelle
  imports Complex_Main
begin

section \<open>Python values and operators used by the calculator\<close>

text \<open>
  The calculator computes with Python floats.  They are modelled by the real numbers,
  without rounding.  The range of floats is modelled where the calculator can leave it by
  an exception or a zero, in the powers: \<^verbatim>\<open>**\<close> raises \<^verbatim>\<open>OverflowError\<close> when the power is
  beyond every float and gives 0.0 when it is below every positive float.  Products and
  quotients are exact: their overflow to an infinity is not modelled, nor is the
  \<^verbatim>\<open>OverflowError\<close> of \<^verbatim>\<open>5 - subclass\<close> times 0.01 for a subclass beyond the range of
  floats (more than 308 digits).  Python's
  \<^verbatim>\<open>**\<close> leaves the reals when a negative float is raised to a non-integral power
  (the result is a complex number), so a number held by the calculator is either a float
  or a complex value.  Python's integers are unbounded and are modelled by \<open>int\<close>; the
  limit CPython puts on the length of a decimal string that \<^verbatim>\<open>int\<close> converts is not
  modelled.  Strings are lists of 8-bit characters, read as the code points U+0000 to
  U+00FF.

  An exception is a value: a derivation returns either the error raised or the record as
  it stands when the method returns, together with the input lines left unread.  The
  rounding of \<^verbatim>\<open>display_properties\<close> and the script that reads the four fields from the
  console are not part of the model.
\<close>

datatype pynum = PyFloat real | PyComplex complex

datatype error =
    MissingSeedError
  | InvalidMassError
  | InvalidTemperatureError
  | MissingSpectralTypeError
  | UnknownSpectralTypeError
  | TypeError
  | ZeroDivisionError
  | OverflowError
  | ValueError
  | EOFError

text \<open>
  The first five errors are the \<^verbatim>\<open>ValueError\<close>s the calculator raises itself, told apart
  by their message: "At least one property (mass, temperature, or spectral type) must be
  provided.", "Mass must be provided ...", "Temperature must be provided ...",
  "Spectral type must be provided ..." and "Unknown spectral type.".  The other five are
  raised by Python: ordering a complex number, a zero base with a negative exponent, a
  power beyond the range of floats, \<^verbatim>\<open>int\<close> or \<^verbatim>\<open>float\<close> of a malformed string, and
  \<^verbatim>\<open>input\<close> at the end of the input.
\<close>

fun and_then :: "error + 'a \<Rightarrow> ('a \<Rightarrow> error + 'b) \<Rightarrow> error + 'b" where
  "and_then (Inl e) f = Inl e"
| "and_then (Inr v) f = f v"

fun is_zero :: "pynum \<Rightarrow> bool" where
  "is_zero (PyFloat x) = (x = 0)"
| "is_zero (PyComplex z) = (z = 0)"

text \<open>Truth value of an optional number: \<^verbatim>\<open>None\<close> and zero are false.\<close>

fun truthy :: "pynum option \<Rightarrow> bool" where
  "truthy None = False"
| "truthy (Some v) = (\<not> is_zero v)"

text \<open>Truth value of an optional string: \<^verbatim>\<open>None\<close> and the empty string are false.\<close>

fun truthy_str :: "string option \<Rightarrow> bool" where
  "truthy_str None = False"
| "truthy_str (Some st) = (st \<noteq> [])"

text \<open>
  The range of floats.  A power whose exact value reaches \<open>float_overflow\<close>, the midpoint
  between the largest float and \<open>2^1024\<close>, overflows, and Python raises
  \<^verbatim>\<open>OverflowError\<close>; one whose exact value is at most \<open>float_underflow\<close>, half the
  smallest positive float, is 0.0; between the two the exact value is kept.
\<close>

definition float_overflow :: real where
  "float_overflow = 2 ^ 1024 - 2 ^ 970"

definition float_underflow :: real where
  "float_underflow = 1 / 2 ^ 1075"

definition float_range :: "real \<Rightarrow> error + real" where
  "float_range r =
     (if float_overflow \<le> r then Inl OverflowError
      else if r \<le> float_underflow then Inr 0
      else Inr r)"

text \<open>
  Complex power with a real exponent, in polar form as CPython computes it: the modulus
  is raised to the exponent, within the range of floats, and the argument is multiplied
  by the exponent.
\<close>

definition c_pow :: "complex \<Rightarrow> real \<Rightarrow> error + complex" where
  "c_pow z y = and_then (float_range (cmod z powr y)) (\<lambda>r. Inr (rcis r (y * Arg z)))"

text \<open>
  \<^verbatim>\<open>v ** y\<close> for a float exponent \<open>y\<close>.  A zero base with a negative exponent raises
  \<^verbatim>\<open>ZeroDivisionError\<close>; a negative float base gives a float for an integral exponent and
  a complex number otherwise.
\<close>

fun py_pow :: "pynum \<Rightarrow> real \<Rightarrow> error + pynum" where
  "py_pow (PyFloat x) y =
     (if x = 0 then
        (if y < 0 then Inl ZeroDivisionError else Inr (PyFloat (if y = 0 then 1 else 0)))
      else if 0 < x then and_then (float_range (x powr y)) (\<lambda>r. Inr (PyFloat r))
      else if y = of_int \<lfloor>y\<rfloor> then
        and_then (float_range (\<bar>x\<bar> powr y)) (\<lambda>r. Inr (PyFloat (if even \<lfloor>y\<rfloor> then r else - r)))
      else and_then (c_pow (of_real x) y) (\<lambda>w. Inr (PyComplex w)))"
| "py_pow (PyComplex z) y =
     (if z = 0 then
        (if y < 0 then Inl ZeroDivisionError else Inr (PyComplex (if y = 0 then 1 else 0)))
      else and_then (c_pow z y) (\<lambda>w. Inr (PyComplex w)))"

declare py_pow.simps [simp del]

text \<open>\<^verbatim>\<open>k * v\<close> and \<^verbatim>\<open>v / k\<close> for a real constant \<open>k\<close>.\<close>

fun py_mul :: "real \<Rightarrow> pynum \<Rightarrow> pynum" where
  "py_mul k (PyFloat x) = PyFloat (k * x)"
| "py_mul k (PyComplex z) = PyComplex (of_real k * z)"

fun py_div :: "pynum \<Rightarrow> real \<Rightarrow> pynum" where
  "py_div (PyFloat x) k = PyFloat (x / k)"
| "py_div (PyComplex z) k = PyComplex (z / of_real k)"

text \<open>\<^verbatim>\<open>v >= k\<close>: complex numbers are not ordered.\<close>

fun py_ge :: "pynum \<Rightarrow> real \<Rightarrow> error + bool" where
  "py_ge (PyFloat x) k = Inr (k \<le> x)"
| "py_ge (PyComplex z) k = Inl TypeError"

text \<open>Formatting an integer in an f-string: its decimal digits.\<close>

definition digit_char :: "nat \<Rightarrow> char" where
  "digit_char n = ''0123456789'' ! (n mod 10)"

fun str_nat :: "nat \<Rightarrow> string" where
  "str_nat n = (if n < 10 then [digit_char n] else str_nat (n div 10) @ [digit_char (n mod 10)])"

declare str_nat.simps [simp del]

definition str_int :: "int \<Rightarrow> string" where
  "str_int i = (if i < 0 then CHR ''-'' # str_nat (nat (- i)) else str_nat (nat i))"

text \<open>
  \<^verbatim>\<open>str.isdigit\<close> and \<^verbatim>\<open>int\<close> on code points up to U+00FF.  \<^verbatim>\<open>isdigit\<close> holds of a
  non-empty string of digit characters, and the superscripts two, three and one (U+00B2,
  U+00B3, U+00B9) are digit characters for it; \<^verbatim>\<open>int\<close> reads decimal digits only and
  raises \<^verbatim>\<open>ValueError\<close> on anything else.
\<close>

definition is_decimal :: "char \<Rightarrow> bool" where
  "is_decimal c = (c \<in> set ''0123456789'')"

definition is_superscript_digit :: "char \<Rightarrow> bool" where
  "is_superscript_digit c = (of_char c \<in> {178, 179, 185 :: nat})"

definition isdigit :: "string \<Rightarrow> bool" where
  "isdigit st = (st \<noteq> [] \<and> list_all (\<lambda>c. is_decimal c \<or> is_superscript_digit c) st)"

definition digit_value :: "char \<Rightarrow> int" where
  "digit_value c = int (of_char c) - 48"

definition py_int :: "string \<Rightarrow> error + int" where
  "py_int st =
     (if st \<noteq> [] \<and> list_all is_decimal st
      then Inr (foldl (\<lambda>a c. 10 * a + digit_value c) 0 st)
      else Inl ValueError)"

section \<open>The calculator\<close>

record star_calculator =
  mass :: "pynum option"
  temperature :: "pynum option"
  lifespan :: "pynum option"
  spectral_type :: "string option"
  metallicity :: "real option"

text \<open>The constructor: an absent metallicity becomes the solar value 1.0.\<close>

definition init ::
  "pynum option \<Rightarrow> pynum option \<Rightarrow> pynum option \<Rightarrow> string option \<Rightarrow> real option
     \<Rightarrow> star_calculator" where
  "init m t l st z =
     \<lparr>mass = m, temperature = t, lifespan = l, spectral_type = st,
      metallicity = Some (case z of None \<Rightarrow> 1 | Some v \<Rightarrow> v)\<rparr>"

text \<open>
  The input collaborator: the lines still to be read from standard input.  A line is left
  blank, holds a number, or holds something \<^verbatim>\<open>float\<close> rejects.
\<close>

datatype reply = Blank | Number real | Malformed

text \<open>
  Lines 41 and 42 of the source: when the metallicity field is \<^verbatim>\<open>None\<close>, one line is read
  and \<^verbatim>\<open>float(line or 1.0)\<close> is stored.
\<close>

definition prompt_metallicity ::
  "reply list \<Rightarrow> star_calculator \<Rightarrow> error + star_calculator \<times> reply list" where
  "prompt_metallicity inp s =
     (case metallicity s of
        Some z \<Rightarrow> Inr (s, inp)
      | None \<Rightarrow>
          (case inp of
             [] \<Rightarrow> Inl EOFError
           | Blank # rest \<Rightarrow> Inr (s\<lparr>metallicity := Some 1\<rparr>, rest)
           | Number v # rest \<Rightarrow> Inr (s\<lparr>metallicity := Some v\<rparr>, rest)
           | Malformed # rest \<Rightarrow> Inl ValueError))"

text \<open>The chain of temperature bands, on a float temperature.\<close>

definition spectral_string :: "real \<Rightarrow> string" where
  "spectral_string T =
     (if 60000 \<le> T then ''Wolf Rayet Star'' @ str_int 0
      else if 30000 \<le> T \<and> T < 60000 then ''O'' @ str_int (min 9 \<lfloor>(60000 - T) / 3000\<rfloor>)
      else if 10000 \<le> T \<and> T < 30000 then ''B'' @ str_int (min 9 \<lfloor>(30000 - T) / 2000\<rfloor>)
      else if 7500 \<le> T \<and> T < 10000 then ''A'' @ str_int (min 9 \<lfloor>(10000 - T) / 250\<rfloor>)
      else if 6000 \<le> T \<and> T < 7500 then ''F'' @ str_int (min 9 \<lfloor>(7500 - T) / 150\<rfloor>)
      else if 5200 \<le> T \<and> T < 6000 then ''G'' @ str_int (min 9 \<lfloor>(6000 - T) / 80\<rfloor>)
      else if 3700 \<le> T \<and> T < 5200 then ''K'' @ str_int (min 9 \<lfloor>(5200 - T) / 150\<rfloor>)
      else if 2400 \<le> T \<and> T < 3700 then ''M'' @ str_int (min 9 \<lfloor>(3700 - T) / 130\<rfloor>)
      else if 1300 \<le> T \<and> T < 2400 then ''L'' @ str_int (min 9 \<lfloor>(2400 - T) / 100\<rfloor>)
      else if 600 \<le> T \<and> T < 1300 then ''T'' @ str_int (min 9 \<lfloor>(1300 - T) / 70\<rfloor>)
      else ''Below T type (Y dwarf or planet)'')"

text \<open>
  The classifier.  Its first comparison raises \<^verbatim>\<open>TypeError\<close> on a complex temperature;
  on a float the chain of bands runs.
\<close>

fun determine_spectral_type_with_subclass :: "pynum \<Rightarrow> error + string" where
  "determine_spectral_type_with_subclass (PyComplex z) = Inl TypeError"
| "determine_spectral_type_with_subclass (PyFloat T) = Inr (spectral_string T)"

definition calculate_from_mass ::
  "reply list \<Rightarrow> star_calculator \<Rightarrow> error + star_calculator \<times> reply list" where
  "calculate_from_mass inp s =
     (case mass s of
        None \<Rightarrow> Inl InvalidMassError
      | Some m \<Rightarrow>
          if is_zero m then Inl InvalidMassError
          else
            and_then (py_pow m 0.505) (\<lambda>p.
            and_then (py_ge m 0.43) (\<lambda>heavy.
            and_then (if heavy then py_pow m (- 2.5) else py_pow m (- 1.8)) (\<lambda>q.
            and_then (determine_spectral_type_with_subclass (py_mul 5800 p)) (\<lambda>st.
              prompt_metallicity inp
                (s\<lparr>temperature := Some (py_mul 5800 p),
                   lifespan := Some (py_mul (if heavy then 10 else 15) q),
                   spectral_type := Some st\<rparr>))))))"

definition calculate_from_temperature ::
  "reply list \<Rightarrow> star_calculator \<Rightarrow> error + star_calculator \<times> reply list" where
  "calculate_from_temperature inp s =
     (case temperature s of
        None \<Rightarrow> Inl InvalidTemperatureError
      | Some t \<Rightarrow>
          if is_zero t then Inl InvalidTemperatureError
          else
            and_then (py_pow (py_div t 5800) (1 / 0.505)) (\<lambda>m.
              calculate_from_mass inp (s\<lparr>mass := Some m\<rparr>)))"

text \<open>The seed table: spectral letter to reference mass and reference temperature.\<close>

definition spectral_type_dict :: "char \<Rightarrow> (real \<times> real) option" where
  "spectral_type_dict =
     [CHR ''O'' \<mapsto> (20, 50000),
      CHR ''B'' \<mapsto> (2.5, 25000),
      CHR ''A'' \<mapsto> (2.0, 10000),
      CHR ''F'' \<mapsto> (1.4, 7500),
      CHR ''G'' \<mapsto> (1.1, 5800),
      CHR ''K'' \<mapsto> (0.8, 4500),
      CHR ''M'' \<mapsto> (0.5, 3500),
      CHR ''L'' \<mapsto> (0.08, 2200),
      CHR ''T'' \<mapsto> (0.05, 1200)]"

text \<open>
  Line 70 of the source: the subclass is \<^verbatim>\<open>int\<close> of the text after the first character
  when that text is non-empty and \<^verbatim>\<open>isdigit\<close> holds of it, and 0 otherwise.
\<close>

definition subclass_of :: "string \<Rightarrow> error + int" where
  "subclass_of st = (if 1 < length st \<and> isdigit (tl st) then py_int (tl st) else Inr 0)"

definition adjustment_factor :: "int \<Rightarrow> real" where
  "adjustment_factor subclass = 1 + 0.01 * (5 - of_int subclass)"

definition calculate_from_spectral_type ::
  "reply list \<Rightarrow> star_calculator \<Rightarrow> error + star_calculator \<times> reply list" where
  "calculate_from_spectral_type inp s =
     (case spectral_type s of
        None \<Rightarrow> Inl MissingSpectralTypeError
      | Some [] \<Rightarrow> Inl MissingSpectralTypeError
      | Some (c # rest) \<Rightarrow>
          (case spectral_type_dict c of
             None \<Rightarrow> Inl UnknownSpectralTypeError
           | Some (base_mass, base_temp) \<Rightarrow>
               and_then (subclass_of (c # rest)) (\<lambda>subclass.
                 let m = base_mass * adjustment_factor subclass;
                     t = base_temp * adjustment_factor subclass;
                     s1 = s\<lparr>mass := Some (PyFloat m), temperature := Some (PyFloat t)\<rparr>
                 in if m < 0.43
                    then and_then (py_pow (PyFloat m) (- 1.8)) (\<lambda>q.
                           Inr (s1\<lparr>lifespan := Some (py_mul 15 q)\<rparr>, inp))
                    else calculate_from_mass inp s1)))"

definition calculate_properties ::
  "reply list \<Rightarrow> star_calculator \<Rightarrow> error + star_calculator \<times> reply list" where
  "calculate_properties inp s =
     (if truthy (mass s) then calculate_from_mass inp s
      else if truthy (temperature s) then calculate_from_temperature inp s
      else if truthy_str (spectral_type s) then calculate_from_spectral_type inp s
      else Inl MissingSeedError)"

section \<open>The band table of the specification\<close>

text \<open>
  The classifier as the specification words it, to be compared with the chain of
  comparisons of the source: a table of bands (letter, lower bound, upper bound, divisor)
  in descending order of temperature, searched for the first band that holds the
  temperature; above the table the Wolf-Rayet label with digit 0, below it the sentinel
  label with no digit.  The digit is the integer quotient of the distance to the band's
  upper bound by the divisor, at most 9.
\<close>

definition band_table :: "(string \<times> real \<times> real \<times> real) list" where
  "band_table =
     [(''O'', 30000, 60000, 3000),
      (''B'', 10000, 30000, 2000),
      (''A'', 7500, 10000, 250),
      (''F'', 6000, 7500, 150),
      (''G'', 5200, 6000, 80),
      (''K'', 3700, 5200, 150),
      (''M'', 2400, 3700, 130),
      (''L'', 1300, 2400, 100),
      (''T'', 600, 1300, 70)]"

definition table_classify :: "real \<Rightarrow> string \<times> int option" where
  "table_classify T =
     (if 60000 \<le> T then (''Wolf Rayet Star'', Some 0)
      else case find (\<lambda>(letter, lo, hi, d). lo \<le> T \<and> T < hi) band_table of
             Some (letter, lo, hi, d) \<Rightarrow> (letter, Some (min 9 \<lfloor>(hi - T) / d\<rfloor>))
           | None \<Rightarrow> (''Below T type (Y dwarf or planet)'', None))"

fun table_string :: "string \<times> int option \<Rightarrow> string" where
  "table_string (label, None) = label"
| "table_string (label, Some k) = label @ [digit_char (nat k)]"

section \<open>Helper facts\<close>

lemma str_int_digit: "0 \<le> k \<Longrightarrow> k \<le> 9 \<Longrightarrow> str_int k = [digit_char (nat k)]"
  by (simp add: str_int_def str_nat.simps)

lemma spectral_string_5800: "spectral_string 5800 = ''G2''"
  by (simp add: spectral_string_def str_int_digit digit_char_def)

lemma and_then_Inl: "and_then r f = Inl e \<Longrightarrow> r = Inl e \<or> (\<exists>v. r = Inr v \<and> f v = Inl e)"
  by (cases r) auto

lemma and_then_Inr: "and_then r f = Inr w \<Longrightarrow> \<exists>v. r = Inr v \<and> f v = Inr w"
  by (cases r) auto

subsection \<open>Powers of ten and the range of floats\<close>

lemma one_le_pow10: "1 \<le> (10::real) ^ n"
  by simp

lemma inv_pow10_le_one: "1 / (10::real) ^ n \<le> 1"
  by simp

lemma inv_pow10_pos: "0 < 1 / (10::real) ^ n"
  by simp

lemma pow10_mono: "n \<le> m \<Longrightarrow> (10::real) ^ n \<le> 10 ^ m"
  by (rule power_increasing) simp_all

lemma inv_pow10_mono: "n \<le> m \<Longrightarrow> 1 / (10::real) ^ m \<le> 1 / 10 ^ n"
  by (simp add: field_simps power_increasing)

lemma ten_le_two: "(10::real) ^ (3 * n) \<le> 2 ^ (10 * n)"
proof -
  have "(10::real) ^ (3 * n) = (10 ^ 3) ^ n" by (rule power_mult)
  also have "\<dots> \<le> (2 ^ 10) ^ n" by (rule power_mono) simp_all
  also have "\<dots> = 2 ^ (10 * n)" by (rule power_mult [symmetric])
  finally show ?thesis .
qed

lemma two_le_ten: "(2::real) ^ (3 * n) \<le> 10 ^ n"
proof -
  have "(2::real) ^ (3 * n) = (2 ^ 3) ^ n" by (rule power_mult)
  also have "\<dots> \<le> 10 ^ n" by (rule power_mono) simp_all
  finally show ?thesis .
qed

lemma pow10_300_le: "(10::real) ^ 300 \<le> 2 ^ 1000"
proof -
  have "(3::nat) * 100 = 300" and "(10::nat) * 100 = 1000" by simp_all
  with ten_le_two [of 100] show ?thesis by (simp only:)
qed

lemma float_overflow_bound: "10 ^ 300 < float_overflow"
proof -
  have b: "(2::real) ^ 1000 < 2 ^ 1023" by (rule power_strict_increasing) simp_all
  have "(2::real) ^ 970 \<le> 2 ^ 1023" by (rule power_increasing) simp_all
  moreover have "(2::real) ^ 1024 = 2 * 2 ^ 1023"
  proof -
    have "(2::real) ^ Suc 1023 = 2 * 2 ^ 1023" by (rule power_Suc)
    moreover have "Suc 1023 = 1024" by simp
    ultimately show ?thesis by (simp only:)
  qed
  ultimately have c: "(2::real) ^ 1023 \<le> float_overflow"
    unfolding float_overflow_def by linarith
  show ?thesis by (rule le_less_trans [OF pow10_300_le less_le_trans [OF b c]])
qed

lemma float_underflow_bound: "float_underflow < 1 / 10 ^ 300"
proof -
  have "(2::real) ^ 1000 < 2 ^ 1075" by (rule power_strict_increasing) simp_all
  with pow10_300_le have "(10::real) ^ 300 < 2 ^ 1075" by (rule le_less_trans)
  moreover have "(0::real) < 10 ^ 300" by (rule zero_less_power) simp
  ultimately have "inverse ((2::real) ^ 1075) < inverse (10 ^ 300)"
    by (rule less_imp_inverse_less)
  then show ?thesis unfolding float_underflow_def by (simp only: inverse_eq_divide)
qed

lemma float_overflow_360: "float_overflow \<le> 10 ^ 360"
proof -
  have "(0::real) \<le> 2 ^ 970" by (rule zero_le_power) simp
  then have "float_overflow \<le> 2 ^ 1024" unfolding float_overflow_def by linarith
  also have "(2::real) ^ 1024 \<le> 2 ^ (3 * 360)" by (rule power_increasing) simp_all
  also have "\<dots> \<le> 10 ^ 360" by (rule two_le_ten)
  finally show ?thesis .
qed

lemma float_underflow_500: "1 / 10 ^ 500 \<le> float_underflow"
proof -
  have "(2::real) ^ 1075 \<le> 2 ^ (3 * 500)" by (rule power_increasing) simp_all
  also have "\<dots> \<le> 10 ^ 500" by (rule two_le_ten)
  finally have "(2::real) ^ 1075 \<le> 10 ^ 500" .
  moreover have "(0::real) < 2 ^ 1075" by (rule zero_less_power) simp
  ultimately have "inverse ((10::real) ^ 500) \<le> inverse (2 ^ 1075)"
    by (rule le_imp_inverse_le)
  then show ?thesis unfolding float_underflow_def by (simp only: inverse_eq_divide)
qed

lemma float_underflow_less_overflow: "float_underflow < float_overflow"
proof -
  note float_underflow_bound
  also have "1 / (10::real) ^ 300 \<le> 1" by (rule inv_pow10_le_one)
  also have "(1::real) \<le> 10 ^ 300" by (rule one_le_pow10)
  also note float_overflow_bound
  finally show ?thesis .
qed

lemma float_range_safe:
  assumes "1 / 10 ^ 300 \<le> r" and "r \<le> 10 ^ 300"
  shows "float_range r = Inr r"
proof -
  have "r < float_overflow" by (rule le_less_trans [OF assms(2) float_overflow_bound])
  moreover have "float_underflow < r" by (rule less_le_trans [OF float_underflow_bound assms(1)])
  ultimately show ?thesis by (simp add: float_range_def)
qed

lemma float_range_overflow:
  assumes "10 ^ 360 \<le> r"
  shows "float_range r = Inl OverflowError"
proof -
  have "float_overflow \<le> r" by (rule order_trans [OF float_overflow_360 assms])
  then show ?thesis by (simp add: float_range_def)
qed

lemma float_range_underflow:
  assumes "r \<le> 1 / 10 ^ 500"
  shows "float_range r = Inr 0"
proof -
  have a: "r \<le> float_underflow" by (rule order_trans [OF assms float_underflow_500])
  then have "r < float_overflow" by (rule le_less_trans [OF _ float_underflow_less_overflow])
  with a show ?thesis by (simp add: float_range_def)
qed

lemma float_range_error: "float_range r = Inl e \<Longrightarrow> e = OverflowError"
  by (auto simp add: float_range_def split: if_splits)

lemma powr_bounded:
  fixes x y B :: real
  assumes "1 / B \<le> x" and "x \<le> B" and "1 \<le> B" and "\<bar>y\<bar> \<le> real n"
  shows "1 / B ^ n \<le> x powr y" and "x powr y \<le> B ^ n"
proof -
  have B: "0 < B" using assms(3) by simp
  then have "0 < 1 / B" by simp
  with assms(1) have x: "0 < x" by linarith
  have "ln x \<le> ln B" using x assms(2) by simp
  moreover have "- ln B \<le> ln x"
  proof -
    have "ln (1 / B) \<le> ln x" using x B assms(1) by (simp del: ln_divide_pos)
    then show ?thesis using B by (simp add: ln_div)
  qed
  ultimately have lnx: "\<bar>ln x\<bar> \<le> ln B" by simp
  have lnB: "0 \<le> ln B" using assms(3) by simp
  have "\<bar>y * ln x\<bar> \<le> real n * ln B"
    unfolding abs_mult using assms(4) lnx lnB by (intro mult_mono) simp_all
  then have up: "y * ln x \<le> real n * ln B" and lo: "- (real n * ln B) \<le> y * ln x"
    by simp_all
  have pw: "x powr y = exp (y * ln x)" using x by (simp add: powr_def)
  have Bn: "exp (real n * ln B) = B ^ n"
    using B by (simp add: exp_of_nat_mult)
  show "x powr y \<le> B ^ n" unfolding pw Bn [symmetric] using up by simp
  have "exp (- (real n * ln B)) \<le> exp (y * ln x)" using lo by simp
  then show "1 / B ^ n \<le> x powr y" unfolding pw by (simp add: exp_minus Bn inverse_eq_divide)
qed

lemma powr_pow10_bounded:
  fixes x y :: real
  assumes "1 / 10 ^ a \<le> x" and "x \<le> 10 ^ a" and "\<bar>y\<bar> \<le> real n"
  shows "1 / 10 ^ (a * n) \<le> x powr y" and "x powr y \<le> 10 ^ (a * n)"
proof -
  note b = powr_bounded [OF assms(1,2) one_le_pow10 assms(3)]
  have e: "((10::real) ^ a) ^ n = 10 ^ (a * n)" by (rule power_mult [symmetric])
  from b(1) show "1 / 10 ^ (a * n) \<le> x powr y" by (simp only: e)
  from b(2) show "x powr y \<le> 10 ^ (a * n)" by (simp only: e)
qed

lemma powr_safe:
  fixes x y :: real
  assumes "1 / 10 ^ 100 \<le> x" and "x \<le> 10 ^ 100" and "\<bar>y\<bar> \<le> 3"
  shows "1 / 10 ^ 300 \<le> x powr y" and "x powr y \<le> 10 ^ 300"
proof -
  have y: "\<bar>y\<bar> \<le> real 3" using assms(3) by simp
  have e: "(100::nat) * 3 = 300" by simp
  from powr_pow10_bounded(1) [OF assms(1,2) y] show "1 / 10 ^ 300 \<le> x powr y"
    by (simp only: e)
  from powr_pow10_bounded(2) [OF assms(1,2) y] show "x powr y \<le> 10 ^ 300"
    by (simp only: e)
qed

lemma powr_safe_square:
  fixes x y :: real
  assumes "1 / 10 ^ 50 \<le> x" and "x \<le> 10 ^ 50" and "\<bar>y\<bar> \<le> 2"
  shows "1 / 10 ^ 100 \<le> x powr y" and "x powr y \<le> 10 ^ 100"
proof -
  have y: "\<bar>y\<bar> \<le> real 2" using assms(3) by simp
  have e: "(50::nat) * 2 = 100" by simp
  from powr_pow10_bounded(1) [OF assms(1,2) y] show "1 / 10 ^ 100 \<le> x powr y"
    by (simp only: e)
  from powr_pow10_bounded(2) [OF assms(1,2) y] show "x powr y \<le> 10 ^ 100"
    by (simp only: e)
qed

lemma safe_positive: "1 / 10 ^ n \<le> x \<Longrightarrow> 0 < (x::real)"
  by (rule less_le_trans [OF inv_pow10_pos])

lemma ten_powr_nat: "(10::real) powr (real n) = 10 ^ n"
  by (simp add: powr_realpow)

lemma ten_powr_minus_nat: "(10::real) powr (- real n) = 1 / 10 ^ n"
  by (simp add: powr_minus powr_realpow inverse_eq_divide)

lemma pow10_powr: "((10::real) ^ n) powr y = 10 powr (real n * y)"
proof -
  have "((10::real) ^ n) powr y = (10 powr (real n)) powr y" by (simp add: powr_realpow)
  also have "\<dots> = 10 powr (real n * y)" by (rule powr_powr)
  finally show ?thesis .
qed

lemma inv10_powr: "(1 / (10::real) ^ n) powr y = 10 powr (- real n * y)"
proof -
  have "(1 / (10::real) ^ n) powr y = (10 powr (- real n)) powr y"
    by (simp only: ten_powr_minus_nat)
  also have "\<dots> = 10 powr (- real n * y)" by (rule powr_powr)
  finally show ?thesis .
qed

subsection \<open>Powers\<close>

lemma py_pow_safe:
  assumes "1 / 10 ^ 100 \<le> x" and "x \<le> 10 ^ 100" and "\<bar>y\<bar> \<le> 3"
  shows "py_pow (PyFloat x) y = Inr (PyFloat (x powr y))"
proof -
  have x: "0 < x" by (rule safe_positive [OF assms(1)])
  have "float_range (x powr y) = Inr (x powr y)"
    by (rule float_range_safe [OF powr_safe [OF assms]])
  with x show ?thesis by (simp add: py_pow.simps)
qed

lemma py_pow_complex_safe:
  assumes "1 / 10 ^ 100 \<le> cmod z" and "cmod z \<le> 10 ^ 100" and "\<bar>y\<bar> \<le> 3"
  shows "py_pow (PyComplex z) y = Inr (PyComplex (rcis (cmod z powr y) (y * Arg z)))"
proof -
  have "0 < cmod z" by (rule safe_positive [OF assms(1)])
  then have "z \<noteq> 0" by simp
  moreover have "float_range (cmod z powr y) = Inr (cmod z powr y)"
    by (rule float_range_safe [OF powr_safe [OF assms]])
  ultimately show ?thesis by (simp add: py_pow.simps c_pow_def)
qed

lemma py_pow_negative_safe:
  assumes "x < 0" and "1 / 10 ^ 100 \<le> \<bar>x\<bar>" and "\<bar>x\<bar> \<le> 10 ^ 100" and "\<bar>y\<bar> \<le> 3"
    and "y \<noteq> of_int \<lfloor>y\<rfloor>"
  shows "py_pow (PyFloat x) y = Inr (PyComplex (rcis (\<bar>x\<bar> powr y) (y * Arg (of_real x))))"
proof -
  have "float_range (\<bar>x\<bar> powr y) = Inr (\<bar>x\<bar> powr y)"
    by (rule float_range_safe [OF powr_safe [OF assms(2-4)]])
  with assms(1,5) show ?thesis by (simp add: py_pow.simps c_pow_def)
qed

lemma c_pow_error: "c_pow z y = Inl e \<Longrightarrow> e = OverflowError"
  by (auto simp add: c_pow_def dest!: and_then_Inl dest: float_range_error)

lemma py_pow_error: "py_pow v y = Inl e \<Longrightarrow> e = ZeroDivisionError \<or> e = OverflowError"
  by (cases v)
    (auto simp add: py_pow.simps split: if_splits dest!: and_then_Inl
      dest: float_range_error c_pow_error)

lemma py_ge_error: "py_ge v k = Inl e \<Longrightarrow> e = TypeError"
  by (cases v) auto

lemma classifier_error: "determine_spectral_type_with_subclass v = Inl e \<Longrightarrow> e = TypeError"
  by (cases v) auto

lemma prompt_metallicity_error:
  "prompt_metallicity inp s = Inl e \<Longrightarrow> e = EOFError \<or> e = ValueError"
  by (auto simp add: prompt_metallicity_def split: option.splits list.splits reply.splits)

subsection \<open>The derivations\<close>

lemma calculate_from_mass_float:
  assumes "1 / 10 ^ 100 \<le> m" and "m \<le> 10 ^ 100" and "mass s = Some (PyFloat m)"
  shows "calculate_from_mass inp s =
     prompt_metallicity inp
       (s\<lparr>temperature := Some (PyFloat (5800 * m powr 0.505)),
          lifespan := Some (PyFloat (if 0.43 \<le> m then 10 * m powr (- 2.5) else 15 * m powr (- 1.8))),
          spectral_type := Some (spectral_string (5800 * m powr 0.505))\<rparr>)"
proof -
  have "0 < m" by (rule safe_positive [OF assms(1)])
  then have "m \<noteq> 0" by simp
  moreover note py_pow_safe [OF assms(1,2), of "0.505"] py_pow_safe [OF assms(1,2), of "- 2.5"]
    py_pow_safe [OF assms(1,2), of "- 1.8"]
  ultimately show ?thesis using assms(3) by (simp add: calculate_from_mass_def)
qed

lemma calculate_from_mass_solar:
  assumes "mass s = Some (PyFloat 1)" and "metallicity s \<noteq> None"
  shows "calculate_from_mass inp s =
     Inr (s\<lparr>temperature := Some (PyFloat 5800), lifespan := Some (PyFloat 10),
            spectral_type := Some ''G2''\<rparr>, inp)"
proof -
  have "1 / 10 ^ 100 \<le> (1::real)" by (rule inv_pow10_le_one)
  moreover have "(1::real) \<le> 10 ^ 100" by (rule one_le_pow10)
  ultimately show ?thesis
    using calculate_from_mass_float [OF _ _ assms(1), of inp] assms(2)
    by (auto simp add: prompt_metallicity_def spectral_string_5800)
qed

lemma calculate_from_mass_complex:
  assumes "mass s = Some (PyComplex z)" and "1 / 10 ^ 100 \<le> cmod z" and "cmod z \<le> 10 ^ 100"
  shows "calculate_from_mass inp s = Inl TypeError"
proof -
  have "0 < cmod z" by (rule safe_positive [OF assms(2)])
  then have "z \<noteq> 0" by simp
  with assms(1) py_pow_complex_safe [OF assms(2,3), of "0.505"] show ?thesis
    by (simp add: calculate_from_mass_def)
qed

lemma roundtrip_temperature:
  assumes "0 < (t::real)"
  shows "5800 * ((t / 5800) powr (1 / 0.505)) powr 0.505 = t"
proof -
  have "((t / 5800) powr (1 / 0.505)) powr 0.505 = (t / 5800) powr ((1 / 0.505) * 0.505)"
    by (rule powr_powr)
  also have "\<dots> = (t / 5800) powr 1" by simp
  also have "\<dots> = t / 5800" using assms by simp
  finally show ?thesis by simp
qed

lemma calculate_from_mass_frame:
  "calculate_from_mass inp (s\<lparr>temperature := t, spectral_type := st\<rparr>) = calculate_from_mass inp s"
  by (simp add: calculate_from_mass_def split: option.splits)

lemma calculate_from_mass_frame_mass:
  "calculate_from_mass inp (s\<lparr>spectral_type := st, mass := v\<rparr>) =
   calculate_from_mass inp (s\<lparr>mass := v\<rparr>)"
  by (simp add: calculate_from_mass_def split: option.splits)

lemma calculate_from_temperature_frame:
  "calculate_from_temperature inp (s\<lparr>mass := m, spectral_type := st\<rparr>) = calculate_from_temperature inp s"
  by (simp add: calculate_from_temperature_def calculate_from_mass_frame_mass split: option.splits)

lemma calculate_from_spectral_type_frame:
  "calculate_from_spectral_type inp (s\<lparr>mass := m, temperature := t\<rparr>) = calculate_from_spectral_type inp s"
  by (simp add: calculate_from_spectral_type_def Let_def split: option.splits list.splits)

lemma calculate_from_mass_error:
  assumes "calculate_from_mass inp s = Inl e"
  shows "(e = InvalidMassError \<and> \<not> truthy (mass s))
       \<or> e = ZeroDivisionError \<or> e = OverflowError \<or> e = TypeError \<or> e = EOFError
       \<or> e = ValueError"
proof (cases "truthy (mass s)")
  case False
  then have "calculate_from_mass inp s = Inl InvalidMassError"
    by (cases "mass s") (simp_all add: calculate_from_mass_def)
  with assms False show ?thesis by simp
next
  case True
  then obtain m where m: "mass s = Some m" "\<not> is_zero m"
    by (cases "mass s") auto
  from assms m show ?thesis
    unfolding calculate_from_mass_def
    by (auto dest!: and_then_Inl dest: py_pow_error py_ge_error classifier_error
          prompt_metallicity_error split: if_splits)
qed

lemma calculate_from_mass_invalid:
  "calculate_from_mass inp s = Inl InvalidMassError \<longleftrightarrow> \<not> truthy (mass s)"
proof
  assume "calculate_from_mass inp s = Inl InvalidMassError"
  from calculate_from_mass_error [OF this] show "\<not> truthy (mass s)" by simp
next
  assume "\<not> truthy (mass s)"
  then show "calculate_from_mass inp s = Inl InvalidMassError"
    by (cases "mass s") (simp_all add: calculate_from_mass_def)
qed

lemma calculate_from_temperature_invalid:
  "calculate_from_temperature inp s = Inl InvalidTemperatureError \<longleftrightarrow> \<not> truthy (temperature s)"
proof
  assume a: "calculate_from_temperature inp s = Inl InvalidTemperatureError"
  show "\<not> truthy (temperature s)"
  proof
    assume "truthy (temperature s)"
    then obtain t where t: "temperature s = Some t" "\<not> is_zero t"
      by (cases "temperature s") auto
    with a have "and_then (py_pow (py_div t 5800) (1 / 0.505))
        (\<lambda>m. calculate_from_mass inp (s\<lparr>mass := Some m\<rparr>)) = Inl InvalidTemperatureError"
      by (simp add: calculate_from_temperature_def)
    then show False
      by (auto dest!: and_then_Inl dest: py_pow_error calculate_from_mass_error)
  qed
next
  assume "\<not> truthy (temperature s)"
  then show "calculate_from_temperature inp s = Inl InvalidTemperatureError"
    by (cases "temperature s") (simp_all add: calculate_from_temperature_def)
qed

lemma truthy_cases:
  "\<not> truthy v \<longleftrightarrow> v = None \<or> v = Some (PyFloat 0) \<or> v = Some (PyComplex 0)"
proof (cases v)
  case None
  then show ?thesis by simp
next
  case (Some n)
  then show ?thesis by (cases n) auto
qed

lemma calculate_from_mass_keeps:
  assumes "calculate_from_mass inp s = Inr (s', inp')" and "metallicity s = Some z"
  shows "metallicity s' = Some z \<and> inp' = inp"
  using assms
  by (auto simp add: calculate_from_mass_def prompt_metallicity_def
      split: option.splits if_splits dest!: and_then_Inr)

lemma calculate_from_temperature_keeps:
  assumes "calculate_from_temperature inp s = Inr (s', inp')" and "metallicity s = Some z"
  shows "metallicity s' = Some z \<and> inp' = inp"
proof -
  from assms(1) obtain v where "calculate_from_mass inp (s\<lparr>mass := Some v\<rparr>) = Inr (s', inp')"
    by (auto simp add: calculate_from_temperature_def split: option.splits if_splits
        dest!: and_then_Inr)
  from calculate_from_mass_keeps [OF this, of z] assms(2) show ?thesis by simp
qed

subsection \<open>The classifier and the band table\<close>

lemma str_int_subclass:
  assumes "T \<le> hi" and "0 < d"
  shows "str_int (min 9 \<lfloor>(hi - T) / d\<rfloor>) = [digit_char (nat (min 9 \<lfloor>(hi - T) / d\<rfloor>))]"
proof -
  have "0 \<le> (hi - T) / d" using assms by simp
  then have "0 \<le> \<lfloor>(hi - T) / d\<rfloor>" by simp
  then show ?thesis by (intro str_int_digit) simp_all
qed

lemma spectral_string_table: "spectral_string T = table_string (table_classify T)"
  by (simp add: spectral_string_def table_classify_def band_table_def str_int_subclass str_int_digit)

lemma table_digit_range:
  "(case snd (table_classify T) of None \<Rightarrow> T < 600 | Some k \<Rightarrow> 0 \<le> k \<and> k \<le> 9 \<and> 600 \<le> T)"
  by (simp add: table_classify_def band_table_def)

lemma spectral_string_30000: "spectral_string 30000 = ''O9''"
  by (simp add: spectral_string_def str_int_digit digit_char_def)

lemma spectral_string_B:
  assumes "10000 \<le> T" and "T < 30000"
  shows "hd (spectral_string T) = CHR ''B''"
  using assms by (simp add: spectral_string_def)

lemma spectral_string_O:
  assumes "30000 \<le> T" and "T < 60000"
  shows "hd (spectral_string T) = CHR ''O''"
  using assms by (simp add: spectral_string_def)


subsection \<open>The spectral-type path\<close>

lemma spectral_type_dict_bounds:
  "spectral_type_dict c = Some (bm, bt) \<Longrightarrow> 1 / 20 \<le> bm \<and> bm \<le> 20 \<and> 0 < bt"
  by (auto simp add: spectral_type_dict_def split: if_splits)

lemma digits_nonneg:
  "list_all is_decimal st \<Longrightarrow> 0 \<le> a \<Longrightarrow> 0 \<le> foldl (\<lambda>a c. 10 * a + digit_value c) a st"
proof (induction st arbitrary: a)
  case Nil
  then show ?case by simp
next
  case (Cons c st)
  from Cons.prems have "0 \<le> digit_value c"
    by (auto simp add: is_decimal_def digit_value_def)
  with Cons show ?case by simp
qed

lemma subclass_of_nonneg: "subclass_of st = Inr k \<Longrightarrow> 0 \<le> k"
  by (auto simp add: subclass_of_def py_int_def digits_nonneg split: if_splits)

lemma calculate_from_spectral_type_seed:
  assumes "spectral_type s = Some (c # rest)"
    and "spectral_type_dict c = Some (bm, bt)"
    and "subclass_of (c # rest) = Inr k"
  shows "calculate_from_spectral_type inp s =
     (if bm * adjustment_factor k < 0.43
      then and_then (py_pow (PyFloat (bm * adjustment_factor k)) (- 1.8)) (\<lambda>q.
             Inr (s\<lparr>mass := Some (PyFloat (bm * adjustment_factor k)),
                    temperature := Some (PyFloat (bt * adjustment_factor k)),
                    lifespan := Some (py_mul 15 q)\<rparr>, inp))
      else calculate_from_mass inp
             (s\<lparr>mass := Some (PyFloat (bm * adjustment_factor k)),
                temperature := Some (PyFloat (bt * adjustment_factor k))\<rparr>))"
  using assms by (simp add: calculate_from_spectral_type_def Let_def)

lemma calculate_from_spectral_type_success:
  assumes "calculate_from_spectral_type inp s = Inr (s', inp')"
  obtains c rest bm bt k where "spectral_type s = Some (c # rest)"
    and "spectral_type_dict c = Some (bm, bt)" and "subclass_of (c # rest) = Inr k"
  using assms
  by (auto simp add: calculate_from_spectral_type_def split: option.splits list.splits
      dest!: and_then_Inr)

lemma adjustment_factor_bounds:
  assumes "0 \<le> k" and "k < 105"
  shows "1 / 100 \<le> adjustment_factor k \<and> adjustment_factor k \<le> 105 / 100"
proof -
  define r where "r = real_of_int k"
  from assms have "0 \<le> r" "r \<le> 104" by (simp_all add: r_def)
  moreover have "adjustment_factor k = 1 + (5 - r) / 100"
    by (simp add: adjustment_factor_def r_def)
  ultimately show ?thesis by (simp add: field_simps)
qed

lemma adjustment_factor_nonpositive:
  assumes "105 \<le> k"
  shows "adjustment_factor k \<le> 0"
proof -
  define r where "r = real_of_int k"
  from assms have "105 \<le> r" by (simp add: r_def)
  moreover have "adjustment_factor k = 1 + (5 - r) / 100"
    by (simp add: adjustment_factor_def r_def)
  ultimately show ?thesis by (simp add: field_simps)
qed

lemma adjustment_factor_neutral: "adjustment_factor 5 = 1"
  by (simp add: adjustment_factor_def)

lemma moderate_safe:
  fixes x :: real
  assumes "1 / 10 ^ 4 \<le> x" and "x \<le> 10 ^ 4"
  shows "1 / 10 ^ 100 \<le> x" and "x \<le> 10 ^ 100"
proof -
  have "1 / (10::real) ^ 100 \<le> 1 / 10 ^ 4" by (rule inv_pow10_mono) simp
  then show "1 / 10 ^ 100 \<le> x" using assms(1) by (rule order_trans)
  have "(10::real) ^ 4 \<le> 10 ^ 100" by (rule pow10_mono) simp
  with assms(2) show "x \<le> 10 ^ 100" by (rule order_trans)
qed

lemma adjusted_mass_bounds:
  assumes "spectral_type_dict c = Some (bm, bt)" and "0 \<le> k" and "k < 105"
  shows "1 / 10 ^ 4 \<le> bm * adjustment_factor k \<and> bm * adjustment_factor k \<le> 10 ^ 4
    \<and> 0 < bt * adjustment_factor k"
proof -
  from spectral_type_dict_bounds [OF assms(1)] have bm: "1 / 20 \<le> bm" "bm \<le> 20" and bt: "0 < bt"
    by simp_all
  then have bmpos: "0 < bm" by simp
  from adjustment_factor_bounds [OF assms(2,3)]
  have af: "1 / 100 \<le> adjustment_factor k" "adjustment_factor k \<le> 105 / 100" by simp_all
  have "1 / 20 * (1 / 100) \<le> bm * adjustment_factor k"
    using bm af by (intro mult_mono) simp_all
  moreover have "bm * adjustment_factor k \<le> 20 * (105 / 100)"
    using bm af bmpos by (intro mult_mono) simp_all
  moreover have "0 < bt * adjustment_factor k" using bt af by simp
  ultimately show ?thesis by simp
qed

lemma adjusted_mass_safe:
  assumes "spectral_type_dict c = Some (bm, bt)" and "0 \<le> k" and "0 < bm * adjustment_factor k"
  shows "k < 105" and "1 / 10 ^ 100 \<le> bm * adjustment_factor k"
    and "bm * adjustment_factor k \<le> 10 ^ 100"
proof -
  from spectral_type_dict_bounds [OF assms(1)] have bmpos: "0 < bm" by simp
  show k: "k < 105"
  proof (rule ccontr)
    assume "\<not> k < 105"
    then have "adjustment_factor k \<le> 0" by (intro adjustment_factor_nonpositive) simp
    with bmpos have "bm * adjustment_factor k \<le> 0" by (simp add: mult_le_0_iff)
    with assms(3) show False by simp
  qed
  from adjusted_mass_bounds [OF assms(1,2) k]
  have b: "1 / 10 ^ 4 \<le> bm * adjustment_factor k" "bm * adjustment_factor k \<le> 10 ^ 4"
    by simp_all
  show "1 / 10 ^ 100 \<le> bm * adjustment_factor k" by (rule moderate_safe(1) [OF b])
  show "bm * adjustment_factor k \<le> 10 ^ 100" by (rule moderate_safe(2) [OF b])
qed

lemma calculate_from_spectral_type_keeps:
  assumes "calculate_from_spectral_type inp s = Inr (s', inp')" and "metallicity s = Some z"
  shows "metallicity s' = Some z \<and> inp' = inp"
proof -
  from assms(1) obtain c rest bm bt k where st: "spectral_type s = Some (c # rest)"
    and d: "spectral_type_dict c = Some (bm, bt)" and k: "subclass_of (c # rest) = Inr k"
    by (rule calculate_from_spectral_type_success)
  note eq = calculate_from_spectral_type_seed [OF st d k, of inp]
  show ?thesis
  proof (cases "bm * adjustment_factor k < 0.43")
    case True
    with eq assms(1)
    have "and_then (py_pow (PyFloat (bm * adjustment_factor k)) (- 1.8)) (\<lambda>q.
             Inr (s\<lparr>mass := Some (PyFloat (bm * adjustment_factor k)),
                    temperature := Some (PyFloat (bt * adjustment_factor k)),
                    lifespan := Some (py_mul 15 q)\<rparr>, inp)) = Inr (s', inp')"
      by simp
    then obtain q where
      "s' = s\<lparr>mass := Some (PyFloat (bm * adjustment_factor k)),
               temperature := Some (PyFloat (bt * adjustment_factor k)),
               lifespan := Some (py_mul 15 q)\<rparr>" and "inp' = inp"
      by (auto dest!: and_then_Inr)
    with assms(2) show ?thesis by simp
  next
    case False
    with eq assms(1)
    have "calculate_from_mass inp
             (s\<lparr>mass := Some (PyFloat (bm * adjustment_factor k)),
                temperature := Some (PyFloat (bt * adjustment_factor k))\<rparr>) = Inr (s', inp')"
      by simp
    from calculate_from_mass_keeps [OF this, of z] assms(2) show ?thesis by simp
  qed
qed

lemma calculate_properties_keeps:
  assumes "calculate_properties inp s = Inr (s', inp')" and "metallicity s = Some z"
  shows "metallicity s' = Some z \<and> inp' = inp"
proof (cases "truthy (mass s)")
  case True
  with assms(1) have "calculate_from_mass inp s = Inr (s', inp')"
    by (simp add: calculate_properties_def)
  from calculate_from_mass_keeps [OF this assms(2)] show ?thesis .
next
  case m: False
  show ?thesis
  proof (cases "truthy (temperature s)")
    case True
    with m assms(1) have "calculate_from_temperature inp s = Inr (s', inp')"
      by (simp add: calculate_properties_def)
    from calculate_from_temperature_keeps [OF this assms(2)] show ?thesis .
  next
    case False
    with m assms(1) have "calculate_from_spectral_type inp s = Inr (s', inp')"
      by (simp add: calculate_properties_def split: if_splits)
    from calculate_from_spectral_type_keeps [OF this assms(2)] show ?thesis .
  qed
qed

subsection \<open>Concrete seeds\<close>

lemma subclass_of_L5: "subclass_of ''L5'' = Inr 5"
  by (simp add: subclass_of_def isdigit_def is_decimal_def py_int_def digit_value_def)


lemma subclass_of_M5: "subclass_of ''M5'' = Inr 5"
  by (simp add: subclass_of_def isdigit_def is_decimal_def py_int_def digit_value_def)

lemma resolve_solar_mass:
  "calculate_properties inp (init (Some (PyFloat 1)) t l st z) =
     Inr (\<lparr>mass = Some (PyFloat 1), temperature = Some (PyFloat 5800),
           lifespan = Some (PyFloat 10), spectral_type = Some ''G2'',
           metallicity = Some (case z of None \<Rightarrow> 1 | Some v \<Rightarrow> v)\<rparr>, inp)"
proof -
  have "calculate_from_mass inp (init (Some (PyFloat 1)) t l st z) =
     Inr (init (Some (PyFloat 1)) t l st z
            \<lparr>temperature := Some (PyFloat 5800), lifespan := Some (PyFloat 10),
             spectral_type := Some ''G2''\<rparr>, inp)"
    by (rule calculate_from_mass_solar) (simp_all add: init_def)
  then show ?thesis by (simp add: calculate_properties_def init_def)
qed

lemma low_mass_power:
  assumes "1 / 10 ^ 4 \<le> x" and "x \<le> 10 ^ 4" and "\<bar>y\<bar> \<le> 3"
  shows "py_pow (PyFloat x) y = Inr (PyFloat (x powr y))"
  by (rule py_pow_safe [OF moderate_safe [OF assms(1,2)] assms(3)])


lemma mass_of_30000:
  "0.43 \<le> ((30000 / 5800) powr (1 / 0.505) :: real)"
  "1 / 10 ^ 100 \<le> ((30000 / 5800) powr (1 / 0.505) :: real)"
  "((30000 / 5800) powr (1 / 0.505) :: real) \<le> 10 ^ 100"
proof -
  have one: "(1::real) \<le> (30000 / 5800) powr (1 / 0.505)"
    by (rule ge_one_powr_ge_zero) simp_all
  then show "0.43 \<le> ((30000 / 5800) powr (1 / 0.505) :: real)" by simp
  have b: "1 / 10 ^ 50 \<le> (30000 / 5800 :: real)" "(30000 / 5800 :: real) \<le> 10 ^ 50"
    by simp_all
  show "1 / 10 ^ 100 \<le> ((30000 / 5800) powr (1 / 0.505) :: real)"
    by (rule powr_safe_square(1) [OF b]) simp
  show "((30000 / 5800) powr (1 / 0.505) :: real) \<le> 10 ^ 100"
    by (rule powr_safe_square(2) [OF b]) simp
qed

lemma resolve_30000:
  "calculate_properties inp (init None (Some (PyFloat 30000)) l st z) =
     Inr (\<lparr>mass = Some (PyFloat ((30000 / 5800) powr (1 / 0.505))),
           temperature = Some (PyFloat 30000),
           lifespan = Some (PyFloat (10 * ((30000 / 5800) powr (1 / 0.505)) powr (- 2.5))),
           spectral_type = Some ''O9'',
           metallicity = Some (case z of None \<Rightarrow> 1 | Some v \<Rightarrow> v)\<rparr>, inp)"
proof -
  define M :: real where "M = (30000 / 5800) powr (1 / 0.505)"
  define Z :: real where "Z = (case z of None \<Rightarrow> 1 | Some v \<Rightarrow> v)"
  define s where "s = init None (Some (PyFloat 30000)) l st z"
  have s: "mass s = None" "temperature s = Some (PyFloat 30000)" "metallicity s = Some Z"
    by (simp_all add: s_def init_def Z_def)
  have M: "0.43 \<le> M" "1 / 10 ^ 100 \<le> M" "M \<le> 10 ^ 100"
    unfolding M_def by (rule mass_of_30000)+
  have rt: "5800 * M powr 0.505 = 30000"
    unfolding M_def using roundtrip_temperature [of 30000] by simp
  have pw: "py_pow (PyFloat (30000 / 5800)) (1 / 0.505) = Inr (PyFloat M)"
    unfolding M_def by (rule low_mass_power) simp_all
  have "calculate_properties inp s = calculate_from_temperature inp s"
    using s by (simp add: calculate_properties_def)
  also have "\<dots> = calculate_from_mass inp (s\<lparr>mass := Some (PyFloat M)\<rparr>)"
    using s pw by (simp add: calculate_from_temperature_def)
  also have "\<dots> = prompt_metallicity inp
       (s\<lparr>mass := Some (PyFloat M),
          temperature := Some (PyFloat (5800 * M powr 0.505)),
          lifespan := Some (PyFloat (if 0.43 \<le> M then 10 * M powr (- 2.5) else 15 * M powr (- 1.8))),
          spectral_type := Some (spectral_string (5800 * M powr 0.505))\<rparr>)"
    using calculate_from_mass_float [OF M(2,3), of "s\<lparr>mass := Some (PyFloat M)\<rparr>" inp] by simp
  also have "\<dots> = prompt_metallicity inp
       (s\<lparr>mass := Some (PyFloat M), temperature := Some (PyFloat 30000),
          lifespan := Some (PyFloat (10 * M powr (- 2.5))), spectral_type := Some ''O9''\<rparr>)"
    using M(1) by (simp only: rt spectral_string_30000 if_True)
  also have "\<dots> = Inr (s\<lparr>mass := Some (PyFloat M), temperature := Some (PyFloat 30000),
          lifespan := Some (PyFloat (10 * M powr (- 2.5))), spectral_type := Some ''O9''\<rparr>, inp)"
    using s by (simp add: prompt_metallicity_def)
  also have "s\<lparr>mass := Some (PyFloat M), temperature := Some (PyFloat 30000),
          lifespan := Some (PyFloat (10 * M powr (- 2.5))), spectral_type := Some ''O9''\<rparr> =
        \<lparr>mass = Some (PyFloat M), temperature = Some (PyFloat 30000),
         lifespan = Some (PyFloat (10 * M powr (- 2.5))), spectral_type = Some ''O9'',
         metallicity = Some Z\<rparr>"
    by (simp add: s_def init_def Z_def)
  finally show ?thesis unfolding M_def Z_def s_def .
qed

subsection \<open>Seeds well inside the float range\<close>

lemma widen_range:
  fixes x :: real
  assumes "n \<le> m" and "1 / 10 ^ n \<le> x" and "x \<le> 10 ^ n"
  shows "1 / 10 ^ m \<le> x" and "x \<le> 10 ^ m"
proof -
  have "1 / (10::real) ^ m \<le> 1 / 10 ^ n" by (rule inv_pow10_mono [OF assms(1)])
  then show "1 / 10 ^ m \<le> x" using assms(2) by (rule order_trans)
  have "(10::real) ^ n \<le> 10 ^ m" by (rule pow10_mono [OF assms(1)])
  with assms(3) show "x \<le> 10 ^ m" by (rule order_trans)
qed

lemma calculate_from_temperature_float:
  fixes t :: real
  assumes "1 / 10 ^ 40 \<le> t" and "t \<le> 10 ^ 50" and "temperature s = Some (PyFloat t)"
  shows "1 / 10 ^ 100 \<le> (t / 5800) powr (1 / 0.505)"
    and "(t / 5800) powr (1 / 0.505) \<le> 10 ^ 100"
    and "calculate_from_temperature inp s =
         calculate_from_mass inp (s\<lparr>mass := Some (PyFloat ((t / 5800) powr (1 / 0.505)))\<rparr>)"
proof -
  have tpos: "0 < t" by (rule safe_positive [OF assms(1)])
  have "(1::real) / 10 ^ 50 * 5800 \<le> 1 / 10 ^ 40" by simp
  then have "1 / 10 ^ 50 * 5800 \<le> t" using assms(1) by (rule order_trans)
  then have lo: "1 / 10 ^ 50 \<le> t / 5800" by (simp only: pos_le_divide_eq zero_less_numeral)
  have "t / 5800 \<le> t" using tpos by simp
  then have hi: "t / 5800 \<le> 10 ^ 50" using assms(2) by (rule order_trans)
  have e: "\<bar>1 / 0.505 :: real\<bar> \<le> 2" "\<bar>1 / 0.505 :: real\<bar> \<le> 3" by simp_all
  show "1 / 10 ^ 100 \<le> (t / 5800) powr (1 / 0.505)" by (rule powr_safe_square(1) [OF lo hi e(1)])
  show "(t / 5800) powr (1 / 0.505) \<le> 10 ^ 100" by (rule powr_safe_square(2) [OF lo hi e(1)])
  have "(50::nat) \<le> 100" by simp
  note w = widen_range [OF this lo hi]
  have "py_pow (PyFloat (t / 5800)) (1 / 0.505) = Inr (PyFloat ((t / 5800) powr (1 / 0.505)))"
    by (rule py_pow_safe [OF w e(2)])
  moreover have "t \<noteq> 0" using tpos by simp
  ultimately show "calculate_from_temperature inp s =
         calculate_from_mass inp (s\<lparr>mass := Some (PyFloat ((t / 5800) powr (1 / 0.505)))\<rparr>)"
    using assms(3) by (simp add: calculate_from_temperature_def)
qed



subsection \<open>Seeds at the ends of the float range\<close>

lemma tiny_mass:
  fixes x :: real
  defines "x \<equiv> 1 / 10 ^ 200"
  shows "0 < x" and "x < 0.43"
    and "py_pow (PyFloat x) 0.505 = Inr (PyFloat (1 / 10 ^ 101))"
    and "py_pow (PyFloat x) (- 1.8) = Inl OverflowError"
proof -
  show xpos: "0 < x" unfolding x_def by (rule inv_pow10_pos)
  have "x \<le> 1 / 10 ^ 1" unfolding x_def by (rule inv_pow10_mono) simp
  then show "x < 0.43" by simp
  have e1: "- real 200 * (0.505::real) = - real 101" by simp
  have "x powr 0.505 = 10 powr (- real 200 * 0.505)" unfolding x_def by (rule inv10_powr)
  then have "x powr 0.505 = 10 powr (- real 101)" by (simp only: e1)
  then have a: "x powr 0.505 = 1 / 10 ^ 101" by (simp only: ten_powr_minus_nat)
  have "1 / (10::real) ^ 300 \<le> 1 / 10 ^ 101" by (rule inv_pow10_mono) simp
  moreover have "1 / (10::real) ^ 101 \<le> 10 ^ 300"
    by (rule order_trans [OF inv_pow10_le_one one_le_pow10])
  ultimately have "float_range (1 / 10 ^ 101) = Inr (1 / 10 ^ 101)" by (rule float_range_safe)
  then have "float_range (x powr 0.505) = Inr (1 / 10 ^ 101)" by (simp only: a)
  with xpos show "py_pow (PyFloat x) 0.505 = Inr (PyFloat (1 / 10 ^ 101))"
    by (simp add: py_pow.simps)
  have e2: "- real 200 * (- 1.8::real) = real 360" by simp
  have "x powr (- 1.8) = 10 powr (- real 200 * (- 1.8))" unfolding x_def by (rule inv10_powr)
  then have "x powr (- 1.8) = 10 powr (real 360)" by (simp only: e2)
  then have b: "x powr (- 1.8) = 10 ^ 360" by (simp only: ten_powr_nat)
  have "float_range (10 ^ 360) = Inl OverflowError" by (rule float_range_overflow) (rule order_refl)
  then have "float_range (x powr (- 1.8)) = Inl OverflowError" by (simp only: b)
  with xpos show "py_pow (PyFloat x) (- 1.8) = Inl OverflowError"
    by (simp add: py_pow.simps)
qed



lemma tiny_temperature:
  fixes t :: real
  defines "t \<equiv> 1 / 10 ^ 300"
  shows "t \<noteq> 0" and "py_pow (PyFloat (t / 5800)) (1 / 0.505) = Inr (PyFloat 0)"
proof -
  have tpos: "0 < t" unfolding t_def by (rule inv_pow10_pos)
  then show "t \<noteq> 0" by simp
  from tpos have xpos: "0 < t / 5800" by simp
  have "t / 5800 \<le> t" using tpos by simp
  then have "(t / 5800) powr (1 / 0.505) \<le> t powr (1 / 0.505)"
    using xpos by (intro powr_mono2) simp_all
  also have "t powr (1 / 0.505) = 10 powr (- real 300 * (1 / 0.505))"
    unfolding t_def by (rule inv10_powr)
  also have "\<dots> \<le> 10 powr (- real 500)" by (rule powr_mono) simp_all
  also have "\<dots> = 1 / 10 ^ 500" by (rule ten_powr_minus_nat)
  finally have "float_range ((t / 5800) powr (1 / 0.505)) = Inr 0"
    by (rule float_range_underflow)
  with xpos show "py_pow (PyFloat (t / 5800)) (1 / 0.505) = Inr (PyFloat 0)"
    by (simp add: py_pow.simps)
qed

lemma huge_temperature:
  fixes t :: real
  defines "t \<equiv> 10 ^ 200"
  shows "t \<noteq> 0" and "py_pow (PyFloat (t / 5800)) (1 / 0.505) = Inl OverflowError"
proof -
  have "1 \<le> t" unfolding t_def by (rule one_le_pow10)
  then have tpos: "0 < t" by simp
  then show "t \<noteq> 0" by simp
  from tpos have xpos: "0 < t / 5800" by simp
  have "(10::real) ^ 190 * 5800 \<le> 10 ^ 190 * 10 ^ 10"
    by (rule mult_left_mono) simp_all
  also have "\<dots> = 10 ^ (190 + 10)" by (rule power_add [symmetric])
  also have "(190::nat) + 10 = 200" by simp
  finally have "(10::real) ^ 190 * 5800 \<le> t" unfolding t_def .
  then have lo: "(10::real) ^ 190 \<le> t / 5800" by (simp only: pos_le_divide_eq zero_less_numeral)
  have "(10::real) ^ 360 = 10 powr (real 360)" by (rule ten_powr_nat [symmetric])
  also have "\<dots> \<le> 10 powr (real 190 * (1 / 0.505))" by (rule powr_mono) simp_all
  also have "\<dots> = (10 ^ 190) powr (1 / 0.505)" by (rule pow10_powr [symmetric])
  also have "\<dots> \<le> (t / 5800) powr (1 / 0.505)"
    using lo by (intro powr_mono2) (simp_all only: zero_le_power zero_le_numeral, simp)
  finally have "float_range ((t / 5800) powr (1 / 0.505)) = Inl OverflowError"
    by (rule float_range_overflow)
  with xpos show "py_pow (PyFloat (t / 5800)) (1 / 0.505) = Inl OverflowError"
    by (simp add: py_pow.simps)
qed


section \<open>Resolution dispatcher\<close>

text \<open>
  Claim C1.  The dispatcher trusts the first non-empty field in the order mass,
  temperature, spectral type: its result is that of the chosen derivation run on the
  record with the other seed fields erased, so a lower-precedence field counts as not
  provided whatever it holds.  With no non-empty seed field it fails with
  \<open>MissingSeedError\<close>.
\<close>

theorem dispatcher_precedence:
  "calculate_properties inp s =
     (if truthy (mass s) then
        calculate_from_mass inp (s\<lparr>temperature := None, spectral_type := None\<rparr>)
      else if truthy (temperature s) then
        calculate_from_temperature inp (s\<lparr>mass := None, spectral_type := None\<rparr>)
      else if truthy_str (spectral_type s) then
        calculate_from_spectral_type inp (s\<lparr>mass := None, temperature := None\<rparr>)
      else Inl MissingSeedError)"
  by (simp add: calculate_properties_def calculate_from_mass_frame
      calculate_from_temperature_frame calculate_from_spectral_type_frame)

theorem dispatcher_precedence_witness:
  "calculate_properties [] (init (Some (PyFloat 1)) (Some (PyFloat 3000)) None (Some ''M5'') None) =
     Inr (\<lparr>mass = Some (PyFloat 1), temperature = Some (PyFloat 5800),
           lifespan = Some (PyFloat 10), spectral_type = Some ''G2'',
           metallicity = Some 1\<rparr>, [])
   \<and> calculate_properties [] (init None None None None None) = Inl MissingSeedError"
  using dispatcher_precedence [of "[]" "init (Some (PyFloat 1)) (Some (PyFloat 3000)) None (Some ''M5'') None"]
    dispatcher_precedence [of "[]" "init None None None None None"]
  by (simp add: init_def calculate_from_mass_solar)

section \<open>Spectral classifier\<close>

text \<open>
  Claim C4.  On every float temperature the classifier returns the string of the
  specification's band table: first matching band in descending order, the digit the
  integer quotient clamped to 9, between 0 and 9 for every temperature of at least 600 K,
  and absent below 600 K.
\<close>

theorem classifier_follows_band_table:
  "determine_spectral_type_with_subclass (PyFloat T) = Inr (table_string (table_classify T))
   \<and> (case snd (table_classify T) of
        None \<Rightarrow> T < 600
      | Some k \<Rightarrow> 0 \<le> k \<and> k \<le> 9 \<and> 600 \<le> T)"
  using table_digit_range [of T] by (simp add: spectral_string_table)

theorem classifier_follows_band_table_witness:
  "determine_spectral_type_with_subclass (PyFloat 5800) = Inr ''G2''
   \<and> determine_spectral_type_with_subclass (PyFloat 100) = Inr ''Below T type (Y dwarf or planet)''"
  using classifier_follows_band_table [of 5800] classifier_follows_band_table [of 100]
  by (simp add: table_classify_def band_table_def digit_char_def)

section \<open>Guards of the derivations\<close>

text \<open>
  Claim C5, as the code has it.  The mass-based derivation fails with \<open>InvalidMassError\<close>
  exactly when the mass is absent or zero, and the temperature-based derivation fails with
  \<open>InvalidTemperatureError\<close> exactly when the temperature is absent or zero.  A strictly
  negative value passes the guard: the claim that it is rejected with these errors fails,
  as the counterexample shows.
\<close>

theorem guard_rejects_absent_or_zero:
  "(calculate_from_mass inp s = Inl InvalidMassError \<longleftrightarrow>
      mass s = None \<or> mass s = Some (PyFloat 0) \<or> mass s = Some (PyComplex 0))
   \<and> (calculate_from_temperature inp s = Inl InvalidTemperatureError \<longleftrightarrow>
      temperature s = None \<or> temperature s = Some (PyFloat 0) \<or> temperature s = Some (PyComplex 0))"
  by (simp only: calculate_from_mass_invalid calculate_from_temperature_invalid truthy_cases)

theorem guard_rejects_absent_or_zero_witness:
  "calculate_from_mass [] (init (Some (PyFloat 0)) None None None None) = Inl InvalidMassError
   \<and> calculate_from_temperature [] (init None None None None None) = Inl InvalidTemperatureError
   \<and> calculate_from_mass [] (init (Some (PyFloat (- 1))) None None None None) \<noteq> Inl InvalidMassError"
  using guard_rejects_absent_or_zero [of "[]" "init (Some (PyFloat 0)) None None None None"]
    guard_rejects_absent_or_zero [of "[]" "init None None None None None"]
    guard_rejects_absent_or_zero [of "[]" "init (Some (PyFloat (- 1))) None None None None"]
  by (simp add: init_def)

theorem negative_seed_not_rejected:
  "calculate_from_mass [] (init (Some (PyFloat (- 1))) None None None None) = Inl TypeError
   \<and> calculate_from_temperature [] (init None (Some (PyFloat (- 1))) None None None) = Inl TypeError"
proof -
  have "1 / 10 ^ 4 \<le> \<bar>- 1 :: real\<bar>" "\<bar>- 1 :: real\<bar> \<le> 10 ^ 4" by simp_all
  note b = moderate_safe [OF this]
  have p: "py_pow (PyFloat (- 1)) y = Inr (PyComplex (rcis (\<bar>- 1\<bar> powr y) (y * Arg (of_real (- 1)))))"
    if "\<bar>y\<bar> \<le> 3" and "y \<noteq> of_int \<lfloor>y\<rfloor>" for y :: real
    by (rule py_pow_negative_safe [OF _ b that]) simp
  have a: "calculate_from_mass [] (init (Some (PyFloat (- 1))) None None None None) = Inl TypeError"
    using p [of "0.505"] p [of "- 1.8"] by (simp add: calculate_from_mass_def init_def)
  define R :: real where "R = \<bar>- (1 / 5800)\<bar> powr (1 / 0.505)"
  have c: "1 / 10 ^ 50 \<le> \<bar>- (1 / 5800) :: real\<bar>" "\<bar>- (1 / 5800) :: real\<bar> \<le> 10 ^ 50"
    by simp_all
  have e: "\<bar>1 / 0.505 :: real\<bar> \<le> 2" "\<bar>1 / 0.505 :: real\<bar> \<le> 3"
    "(1 / 0.505 :: real) \<noteq> of_int \<lfloor>1 / 0.505 :: real\<rfloor>"
    by simp_all
  have R: "1 / 10 ^ 100 \<le> R" "R \<le> 10 ^ 100"
    unfolding R_def by (rule powr_safe_square [OF c e(1)])+
  have Rpos: "0 < R" by (rule safe_positive [OF R(1)])
  define w where "w = rcis R (1 / 0.505 * Arg (of_real (- (1 / 5800))))"
  have w: "cmod w = R" using Rpos by (simp add: w_def)
  have "(50::nat) \<le> 100" by simp
  note c' = widen_range [OF this c]
  have "py_pow (PyFloat (- (1 / 5800))) (1 / 0.505) = Inr (PyComplex w)"
    unfolding w_def R_def by (rule py_pow_negative_safe [OF _ c' e(2,3)]) simp
  then have "calculate_from_temperature [] (init None (Some (PyFloat (- 1))) None None None) =
        calculate_from_mass [] (init None (Some (PyFloat (- 1))) None None None\<lparr>mass := Some (PyComplex w)\<rparr>)"
    by (simp add: calculate_from_temperature_def init_def)
  also have "\<dots> = Inl TypeError"
    by (rule calculate_from_mass_complex [where z = w]) (simp_all only: w R, simp)
  finally show ?thesis using a by simp
qed

section \<open>Mass-based derivation\<close>

text \<open>
  Claim C2, as the code has it.  For a mass \<open>m\<close> between \<open>10^-100\<close> and \<open>10^100\<close>, where
  no power leaves the range of floats, the mass-based derivation stores the temperature
  \<open>5800 * m^0.505\<close>, the lifespan \<open>10 * m^-2.5\<close> when \<open>m \<ge> 0.43\<close> and \<open>15 * m^-1.8\<close>
  when \<open>m < 0.43\<close>, and the classifier's string for that temperature; the metallicity
  step follows.  For \<open>m = 1\<close> the temperature is 5800, the lifespan is 10 and the
  spectral type is G2, of letter class G.
\<close>

theorem mass_derivation:
  assumes "1 / 10 ^ 100 \<le> m" and "m \<le> 10 ^ 100" and "mass s = Some (PyFloat m)"
  shows "calculate_from_mass inp s =
       prompt_metallicity inp
         (s\<lparr>temperature := Some (PyFloat (5800 * m powr 0.505)),
            lifespan := Some (PyFloat (if 0.43 \<le> m then 10 * m powr (- 2.5) else 15 * m powr (- 1.8))),
            spectral_type := Some (spectral_string (5800 * m powr 0.505))\<rparr>)
     \<and> (m = 1 \<longrightarrow> metallicity s \<noteq> None \<longrightarrow>
          calculate_from_mass inp s =
            Inr (s\<lparr>temperature := Some (PyFloat 5800), lifespan := Some (PyFloat 10),
                   spectral_type := Some ''G2''\<rparr>, inp))"
proof -
  note eq = calculate_from_mass_float [OF assms, of inp]
  moreover have "calculate_from_mass inp s =
            Inr (s\<lparr>temperature := Some (PyFloat 5800), lifespan := Some (PyFloat 10),
                   spectral_type := Some ''G2''\<rparr>, inp)"
    if "m = 1" and "metallicity s \<noteq> None"
    using that assms(3) by (intro calculate_from_mass_solar) simp_all
  ultimately show ?thesis by blast
qed

theorem mass_derivation_witness:
  "1 / 10 ^ 100 \<le> (1::real) \<and> (1::real) \<le> 10 ^ 100
   \<and> mass (init (Some (PyFloat 1)) None None None None) = Some (PyFloat 1)
   \<and> metallicity (init (Some (PyFloat 1)) None None None None) \<noteq> None
   \<and> calculate_from_mass [] (init (Some (PyFloat 1)) None None None None) =
       Inr (\<lparr>mass = Some (PyFloat 1), temperature = Some (PyFloat 5800),
             lifespan = Some (PyFloat 10), spectral_type = Some ''G2'',
             metallicity = Some 1\<rparr>, [])"
  using mass_derivation [where m = 1 and s = "init (Some (PyFloat 1)) None None None None"
      and inp = "[]", OF inv_pow10_le_one one_le_pow10, THEN conjunct2]
    inv_pow10_le_one [of 100] one_le_pow10 [of 100]
  by (simp add: init_def)

text \<open>
  The claim as stated fails at the small end of the float range: for the mass
  \<open>10^-200\<close> the power \<open>m ** -1.8\<close> is \<open>10^360\<close>, beyond every float, and the derivation
  raises \<^verbatim>\<open>OverflowError\<close>.
\<close>

theorem tiny_mass_overflows:
  "calculate_from_mass [] (init (Some (PyFloat (1 / 10 ^ 200))) None None None None) =
     Inl OverflowError"
proof -
  define x :: real where "x = 1 / 10 ^ 200"
  note h = tiny_mass [folded x_def]
  from h(1) have "x \<noteq> 0" by simp
  with h have "calculate_from_mass [] (init (Some (PyFloat x)) None None None None) =
     Inl OverflowError"
    by (simp add: calculate_from_mass_def init_def)
  then show ?thesis unfolding x_def .
qed

section \<open>Temperature-based derivation\<close>

text \<open>
  Claim C3, as the code has it.  For a temperature \<open>t\<close> between \<open>10^-40\<close> and \<open>10^50\<close>,
  where no power leaves the range of floats, the temperature-based derivation estimates
  the mass \<open>M = (t / 5800)^(1/0.505)\<close> and runs the mass-based derivation on it; the
  forward formula applied to \<open>M\<close> gives back \<open>t\<close> exactly over the reals, so on every
  successful return the stored temperature is the supplied one, and the derivation
  returns whenever the metallicity is present.
\<close>

theorem temperature_roundtrip:
  fixes t :: real
  defines "M \<equiv> (t / 5800) powr (1 / 0.505)"
  assumes "1 / 10 ^ 40 \<le> t" and "t \<le> 10 ^ 50" and "temperature s = Some (PyFloat t)"
  shows "calculate_from_temperature inp s = calculate_from_mass inp (s\<lparr>mass := Some (PyFloat M)\<rparr>)
     \<and> 5800 * M powr 0.505 = t
     \<and> (\<forall>s' inp'. calculate_from_temperature inp s = Inr (s', inp') \<longrightarrow>
           mass s' = Some (PyFloat M) \<and> temperature s' = Some (PyFloat t))
     \<and> (metallicity s \<noteq> None \<longrightarrow> (\<exists>s'. calculate_from_temperature inp s = Inr (s', inp)))"
proof -
  have tpos: "0 < t" by (rule safe_positive [OF assms(2)])
  note f = calculate_from_temperature_float [OF assms(2-4), folded M_def]
  have rt: "5800 * M powr 0.505 = t"
    unfolding M_def using roundtrip_temperature [OF tpos] by simp
  have "calculate_from_mass inp (s\<lparr>mass := Some (PyFloat M)\<rparr>) =
         prompt_metallicity inp
           (s\<lparr>mass := Some (PyFloat M),
              temperature := Some (PyFloat (5800 * M powr 0.505)),
              lifespan := Some (PyFloat (if 0.43 \<le> M then 10 * M powr (- 2.5) else 15 * M powr (- 1.8))),
              spectral_type := Some (spectral_string (5800 * M powr 0.505))\<rparr>)"
    using calculate_from_mass_float [OF f(1,2), of "s\<lparr>mass := Some (PyFloat M)\<rparr>" inp] by simp
  with f(3) rt have eq: "calculate_from_temperature inp s =
         prompt_metallicity inp
           (s\<lparr>mass := Some (PyFloat M),
              temperature := Some (PyFloat t),
              lifespan := Some (PyFloat (if 0.43 \<le> M then 10 * M powr (- 2.5) else 15 * M powr (- 1.8))),
              spectral_type := Some (spectral_string t)\<rparr>)"
    by simp
  have fields: "mass s' = Some (PyFloat M) \<and> temperature s' = Some (PyFloat t)"
    if "calculate_from_temperature inp s = Inr (s', inp')" for s' inp'
    using that unfolding eq
    by (auto simp add: prompt_metallicity_def split: option.splits list.splits reply.splits)
  have returns: "\<exists>s'. calculate_from_temperature inp s = Inr (s', inp)" if "metallicity s \<noteq> None"
    using that unfolding eq by (auto simp add: prompt_metallicity_def)
  from f(3) rt fields returns show ?thesis by blast
qed

theorem temperature_roundtrip_witness:
  "1 / 10 ^ 40 \<le> (5800::real) \<and> (5800::real) \<le> 10 ^ 50
   \<and> temperature (init None (Some (PyFloat 5800)) None None None) = Some (PyFloat 5800)
   \<and> calculate_from_temperature [] (init None (Some (PyFloat 5800)) None None None) =
       Inr (\<lparr>mass = Some (PyFloat 1), temperature = Some (PyFloat 5800),
             lifespan = Some (PyFloat 10), spectral_type = Some ''G2'',
             metallicity = Some 1\<rparr>, [])"
proof -
  have b: "1 / 10 ^ 40 \<le> (5800::real)" "(5800::real) \<le> 10 ^ 50" by simp_all
  have "calculate_from_temperature [] (init None (Some (PyFloat 5800)) None None None) =
        calculate_from_mass [] (init None (Some (PyFloat 5800)) None None None\<lparr>mass := Some (PyFloat 1)\<rparr>)"
    using temperature_roundtrip [where t = 5800
        and s = "init None (Some (PyFloat 5800)) None None None" and inp = "[]", OF b,
        THEN conjunct1]
    by (simp add: init_def)
  also have "\<dots> = Inr (init None (Some (PyFloat 5800)) None None None
        \<lparr>mass := Some (PyFloat 1), temperature := Some (PyFloat 5800),
         lifespan := Some (PyFloat 10), spectral_type := Some ''G2''\<rparr>, [])"
    using calculate_from_mass_solar
      [of "init None (Some (PyFloat 5800)) None None None\<lparr>mass := Some (PyFloat 1)\<rparr>" "[]"]
    by (simp add: init_def)
  finally show ?thesis using b by (simp add: init_def)
qed

text \<open>
  The claim as stated fails at both ends of the float range.  For the temperature
  \<open>10^-300\<close> the estimated mass is below every positive float and becomes 0.0, which the
  mass-based derivation rejects as not provided; for the temperature \<open>10^200\<close> the
  estimate is beyond every float and \<^verbatim>\<open>**\<close> raises \<^verbatim>\<open>OverflowError\<close>.
\<close>

theorem extreme_temperature_fails:
  "calculate_from_temperature [] (init None (Some (PyFloat (1 / 10 ^ 300))) None None None) =
     Inl InvalidMassError
   \<and> calculate_from_temperature [] (init None (Some (PyFloat (10 ^ 200))) None None None) =
     Inl OverflowError"
proof -
  define t :: real where "t = 1 / 10 ^ 300"
  define u :: real where "u = 10 ^ 200"
  note a = tiny_temperature [folded t_def]
  note b = huge_temperature [folded u_def]
  from a have "calculate_from_temperature [] (init None (Some (PyFloat t)) None None None) =
     Inl InvalidMassError"
    by (simp add: calculate_from_temperature_def calculate_from_mass_def init_def)
  moreover from b have "calculate_from_temperature [] (init None (Some (PyFloat u)) None None None) =
     Inl OverflowError"
    by (simp add: calculate_from_temperature_def init_def)
  ultimately show ?thesis unfolding t_def u_def by simp
qed

section \<open>Positivity of the resolved record\<close>




section \<open>Spectral-type seed\<close>

text \<open>
  Claim C7 at the input on which the code departs from it.  The text after the letter is
  the superscript two (U+00B2): \<^verbatim>\<open>isdigit\<close> holds of it, \<^verbatim>\<open>int\<close> rejects it, and the
  derivation raises \<^verbatim>\<open>ValueError\<close> instead of parsing a subclass or taking 0.
\<close>

theorem superscript_subclass_raises:
  "calculate_from_spectral_type [] (init None None None (Some [CHR ''M'', CHR 0xB2]) None) = Inl ValueError
   \<and> calculate_properties [] (init None None None (Some [CHR ''M'', CHR 0xB2]) None) = Inl ValueError"
  by (simp add: calculate_properties_def init_def calculate_from_spectral_type_def
      spectral_type_dict_def subclass_of_def isdigit_def is_decimal_def is_superscript_digit_def
      py_int_def)

text \<open>
  Claim C8.  Let \<open>m\<close> and \<open>t\<close> be the reference mass and temperature of the seed's letter
  times the adjustment factor.  When \<open>m < 0.43\<close> the spectral path evaluates
  \<open>15 * m ** -1.8\<close> for the lifespan and stops: on success the temperature is \<open>t\<close>, the
  spectral type is the caller's string, the metallicity and the input are untouched; for
  \<open>0 < m\<close> the lifespan is \<open>15 * m^-1.8\<close>.  (Python's evaluation of the formula raises
  \<^verbatim>\<open>ZeroDivisionError\<close> at \<open>m = 0\<close> and gives a complex number for \<open>m < 0\<close>; the first
  conjunct covers both.)  When \<open>m \<ge> 0.43\<close> the mass-based derivation
  runs on the seeded record and stores the temperature and the spectral type derived from
  \<open>m\<close>: the reference temperature \<open>t\<close> does not reach the result.
\<close>

theorem spectral_path_branches:
  assumes "spectral_type s = Some (c # rest)"
    and "spectral_type_dict c = Some (bm, bt)"
    and "subclass_of (c # rest) = Inr k"
  defines "m \<equiv> bm * adjustment_factor k" and "t \<equiv> bt * adjustment_factor k"
  shows "(m < 0.43 \<longrightarrow>
            calculate_from_spectral_type inp s =
              and_then (py_pow (PyFloat m) (- 1.8)) (\<lambda>q.
                Inr (s\<lparr>mass := Some (PyFloat m), temperature := Some (PyFloat t),
                       lifespan := Some (py_mul 15 q)\<rparr>, inp)))
     \<and> (m < 0.43 \<longrightarrow>
            (\<forall>s' inp'. calculate_from_spectral_type inp s = Inr (s', inp') \<longrightarrow>
               temperature s' = Some (PyFloat t) \<and> spectral_type s' = Some (c # rest)
               \<and> metallicity s' = metallicity s \<and> inp' = inp))
     \<and> (0 < m \<and> m < 0.43 \<longrightarrow>
            calculate_from_spectral_type inp s =
              Inr (s\<lparr>mass := Some (PyFloat m), temperature := Some (PyFloat t),
                     lifespan := Some (PyFloat (15 * m powr (- 1.8)))\<rparr>, inp))
     \<and> (0.43 \<le> m \<longrightarrow>
            calculate_from_spectral_type inp s =
              calculate_from_mass inp (s\<lparr>mass := Some (PyFloat m), temperature := Some (PyFloat t)\<rparr>)
            \<and> calculate_from_mass inp (s\<lparr>mass := Some (PyFloat m), temperature := Some (PyFloat t)\<rparr>) =
              prompt_metallicity inp
                (s\<lparr>mass := Some (PyFloat m),
                   temperature := Some (PyFloat (5800 * m powr 0.505)),
                   lifespan := Some (PyFloat (10 * m powr (- 2.5))),
                   spectral_type := Some (spectral_string (5800 * m powr 0.505))\<rparr>))"
proof -
  note eq = calculate_from_spectral_type_seed [OF assms(1-3), of inp, folded m_def t_def]
  have safe: "1 / 10 ^ 100 \<le> m" "m \<le> 10 ^ 100" if "0 < m"
    unfolding m_def
    by (rule adjusted_mass_safe(2,3) [OF assms(2) subclass_of_nonneg [OF assms(3)] that [unfolded m_def]])+
  have low: "calculate_from_spectral_type inp s =
              and_then (py_pow (PyFloat m) (- 1.8)) (\<lambda>q.
                Inr (s\<lparr>mass := Some (PyFloat m), temperature := Some (PyFloat t),
                       lifespan := Some (py_mul 15 q)\<rparr>, inp))" if "m < 0.43"
    using eq that by simp
  have frame: "temperature s' = Some (PyFloat t) \<and> spectral_type s' = Some (c # rest)
               \<and> metallicity s' = metallicity s \<and> inp' = inp"
    if "m < 0.43" and "calculate_from_spectral_type inp s = Inr (s', inp')" for s' inp'
  proof -
    from that low obtain q where "s' = s\<lparr>mass := Some (PyFloat m), temperature := Some (PyFloat t),
                       lifespan := Some (py_mul 15 q)\<rparr>" and "inp' = inp"
      by (auto dest!: and_then_Inr)
    with assms(1) show ?thesis by simp
  qed
  have lowpos: "calculate_from_spectral_type inp s =
              Inr (s\<lparr>mass := Some (PyFloat m), temperature := Some (PyFloat t),
                     lifespan := Some (PyFloat (15 * m powr (- 1.8)))\<rparr>, inp)"
    if "0 < m" and "m < 0.43"
  proof -
    have "py_pow (PyFloat m) (- 1.8) = Inr (PyFloat (m powr (- 1.8)))"
      by (rule py_pow_safe [OF safe [OF that(1)]]) simp
    with low [OF that(2)] show ?thesis by simp
  qed
  have high: "calculate_from_spectral_type inp s =
              calculate_from_mass inp (s\<lparr>mass := Some (PyFloat m), temperature := Some (PyFloat t)\<rparr>)"
    if "0.43 \<le> m"
    using eq that by simp
  have high2: "calculate_from_mass inp (s\<lparr>mass := Some (PyFloat m), temperature := Some (PyFloat t)\<rparr>) =
              prompt_metallicity inp
                (s\<lparr>mass := Some (PyFloat m),
                   temperature := Some (PyFloat (5800 * m powr 0.505)),
                   lifespan := Some (PyFloat (10 * m powr (- 2.5))),
                   spectral_type := Some (spectral_string (5800 * m powr 0.505))\<rparr>)"
    if "0.43 \<le> m"
  proof -
    from that have "0 < m" by simp
    from calculate_from_mass_float [OF safe [OF this],
        of "s\<lparr>mass := Some (PyFloat m), temperature := Some (PyFloat t)\<rparr>" inp] that
    show ?thesis by simp
  qed
  from low frame lowpos high high2 show ?thesis by simp
qed

theorem spectral_path_branches_witness:
  "calculate_from_spectral_type [] (init None None None (Some ''L5'') None) =
     Inr (\<lparr>mass = Some (PyFloat 0.08), temperature = Some (PyFloat 2200),
           lifespan = Some (PyFloat (15 * 0.08 powr (- 1.8))), spectral_type = Some ''L5'',
           metallicity = Some 1\<rparr>, [])
   \<and> calculate_from_spectral_type [] (init None None None (Some ''M5'') None) =
     Inr (\<lparr>mass = Some (PyFloat 0.5), temperature = Some (PyFloat (5800 * 0.5 powr 0.505)),
           lifespan = Some (PyFloat (10 * 0.5 powr (- 2.5))),
           spectral_type = Some (spectral_string (5800 * 0.5 powr 0.505)),
           metallicity = Some 1\<rparr>, [])"
proof -
  have L: "calculate_from_spectral_type [] (init None None None (Some ''L5'') None) =
     Inr (\<lparr>mass = Some (PyFloat 0.08), temperature = Some (PyFloat 2200),
           lifespan = Some (PyFloat (15 * 0.08 powr (- 1.8))), spectral_type = Some ''L5'',
           metallicity = Some 1\<rparr>, [])"
    using spectral_path_branches [where s = "init None None None (Some ''L5'') None" and c = "CHR ''L''"
      and rest = "''5''" and bm = "0.08" and bt = 2200 and k = 5 and inp = "[]",
      THEN conjunct2, THEN conjunct2, THEN conjunct1]
    by (simp add: init_def spectral_type_dict_def subclass_of_L5 adjustment_factor_def)
  have M: "calculate_from_spectral_type [] (init None None None (Some ''M5'') None) =
     Inr (\<lparr>mass = Some (PyFloat 0.5), temperature = Some (PyFloat (5800 * 0.5 powr 0.505)),
           lifespan = Some (PyFloat (10 * 0.5 powr (- 2.5))),
           spectral_type = Some (spectral_string (5800 * 0.5 powr 0.505)),
           metallicity = Some 1\<rparr>, [])"
    using spectral_path_branches [where s = "init None None None (Some ''M5'') None" and c = "CHR ''M''"
      and rest = "''5''" and bm = "0.5" and bt = 3500 and k = 5 and inp = "[]",
      THEN conjunct2, THEN conjunct2, THEN conjunct2]
    by (simp add: init_def spectral_type_dict_def subclass_of_M5 adjustment_factor_def
        prompt_metallicity_def)
  from L M show ?thesis by simp
qed

section \<open>Metallicity\<close>

lemma metallicity_pass_through:
  "(calculate_properties inp (init m t l st z) = Inr (s', inp') \<longrightarrow>
      metallicity s' = Some (case z of None \<Rightarrow> 1 | Some v \<Rightarrow> v) \<and> inp' = inp)
   \<and> (metallicity s = None \<and> mass s = Some (PyFloat x) \<and> 1 / 10 ^ 100 \<le> x \<and> x \<le> 10 ^ 100 \<longrightarrow>
        calculate_from_mass [] s = Inl EOFError
        \<and> (\<exists>s''. calculate_from_mass (Blank # inp) s = Inr (s'', inp) \<and> metallicity s'' = Some 1)
        \<and> (\<exists>s''. calculate_from_mass (Number v # inp) s = Inr (s'', inp) \<and> metallicity s'' = Some v))"
proof -
  have "metallicity s' = Some (case z of None \<Rightarrow> 1 | Some v \<Rightarrow> v) \<and> inp' = inp"
    if "calculate_properties inp (init m t l st z) = Inr (s', inp')"
    using calculate_properties_keeps [OF that, of "case z of None \<Rightarrow> 1 | Some v \<Rightarrow> v"]
    by (simp add: init_def)
  moreover have "calculate_from_mass [] s = Inl EOFError
        \<and> (\<exists>s''. calculate_from_mass (Blank # inp) s = Inr (s'', inp) \<and> metallicity s'' = Some 1)
        \<and> (\<exists>s''. calculate_from_mass (Number v # inp) s = Inr (s'', inp) \<and> metallicity s'' = Some v)"
    if "metallicity s = None" and "mass s = Some (PyFloat x)"
      and "1 / 10 ^ 100 \<le> x" and "x \<le> 10 ^ 100"
    using that(1) by (simp add: calculate_from_mass_float [OF that(3,4,2)] prompt_metallicity_def)
  ultimately show ?thesis by blast
qed

text \<open>
  Claim C9 at the input on which the code departs from it.  The comment above the last
  step of the mass-based derivation announces a request for the metallicity when none was
  provided, but the constructor has already put 1.0 in its place, so the test for an
  absent metallicity never holds on a constructed record.  With the mass 1.0 and no
  metallicity supplied, resolution makes no request: the pending line of the input is
  still unread afterwards and the metallicity is 1.0.
\<close>

theorem no_metallicity_request:
  "calculate_properties [Number 7] (init (Some (PyFloat 1)) None None None None) =
     Inr (\<lparr>mass = Some (PyFloat 1), temperature = Some (PyFloat 5800),
           lifespan = Some (PyFloat 10), spectral_type = Some ''G2'',
           metallicity = Some 1\<rparr>, [Number 7])"
  using resolve_solar_mass [of "[Number 7]" None None None None] by simp

section \<open>The boundary between bands B and O\<close>

text \<open>
  Claim C10, as the code has it.  The seed temperature 30000 is carried through the mass
  estimate and back, exactly over the reals, and is classified O9: band O holds
  \<open>[30000, 60000)\<close> and band B holds \<open>[10000, 30000)\<close>.
\<close>

theorem boundary_30000_lands_in_O:
  "calculate_properties inp (init None (Some (PyFloat 30000)) l st z) =
     Inr (\<lparr>mass = Some (PyFloat ((30000 / 5800) powr (1 / 0.505))),
           temperature = Some (PyFloat 30000),
           lifespan = Some (PyFloat (10 * ((30000 / 5800) powr (1 / 0.505)) powr (- 2.5))),
           spectral_type = Some ''O9'',
           metallicity = Some (case z of None \<Rightarrow> 1 | Some v \<Rightarrow> v)\<rparr>, inp)
   \<and> (10000 \<le> T \<and> T < 30000 \<longrightarrow> hd (spectral_string T) = CHR ''B'')
   \<and> (30000 \<le> T \<and> T < 60000 \<longrightarrow> hd (spectral_string T) = CHR ''O'')"
  using resolve_30000 [of inp l st z] spectral_string_B [of T] spectral_string_O [of T] by simp

theorem boundary_30000_lands_in_O_witness:
  "calculate_properties [Blank] (init None (Some (PyFloat 30000)) None (Some ''B0'') (Some 2)) =
     Inr (\<lparr>mass = Some (PyFloat ((30000 / 5800) powr (1 / 0.505))),
           temperature = Some (PyFloat 30000),
           lifespan = Some (PyFloat (10 * ((30000 / 5800) powr (1 / 0.505)) powr (- 2.5))),
           spectral_type = Some ''O9'',
           metallicity = Some 2\<rparr>, [Blank])
   \<and> hd (spectral_string 29999) = CHR ''B''"
  using boundary_30000_lands_in_O [of "[Blank]" None "Some ''B0''" "Some 2" 29999] by simp

text \<open>The claim as stated fails: the resolved spectral type is O9, not a type of band B.\<close>

theorem boundary_30000_not_B:
  "map_sum id (spectral_type \<circ> fst)
     (calculate_properties [] (init None (Some (PyFloat 30000)) None None None)) = Inr (Some ''O9'')"
  using resolve_30000 [of "[]" None None None] by simp

end
